theory Spec2Isabelle
  imports Main "HOL-Library.Word" "HOL-Library.Product_Lexorder"
begin

section \<open>Kobo sync authentication (cps/kobo\_auth.py)\<close>

text \<open>
  The module authenticates device requests by a random token carried in the URL path.
  It consists of five functions: \<open>pop_auth_token\<close> (a URL value preprocessor),
  \<open>get_auth_token\<close>, \<open>load_user_from_kobo_request\<close> (the request loader),
  \<open>generate_auth_token\<close> and \<open>delete_auth_token\<close> (two routes).

  Everything the functions touch beyond their arguments is made explicit: the request
  context \<open>g\<close> is a map from attribute names to values, the database session is a record
  holding the two tables the queries read, and the operating system's random source is
  an argument of the function that draws from it.
\<close>

subsection \<open>Timestamps\<close>

text \<open>
  The fields of Python's \<open>datetime\<close>: year, month, day, hour, minute, second, microsecond.
  \<open>datetime_max\<close> is the library constant \<open>datetime.max\<close>, that is
  \<open>datetime(9999, 12, 31, 23, 59, 59, 999999)\<close>; \<open>datetime_valid\<close> is the range check of
  the \<open>datetime\<close> constructor and \<open>datetime_key\<close> the tuple Python compares timestamps by.
\<close>

datatype datetime = DateTime nat nat nat nat nat nat nat

definition datetime_max :: datetime where
  "datetime_max = DateTime 9999 12 31 23 59 59 999999"

definition is_leap :: "nat \<Rightarrow> bool" where
  "is_leap y \<longleftrightarrow> y mod 4 = 0 \<and> (y mod 100 \<noteq> 0 \<or> y mod 400 = 0)"

definition days_in_month :: "nat \<Rightarrow> nat \<Rightarrow> nat" where
  "days_in_month y m =
     (if m = 2 then (if is_leap y then 29 else 28)
      else if m = 4 \<or> m = 6 \<or> m = 9 \<or> m = 11 then 30
      else 31)"

fun datetime_valid :: "datetime \<Rightarrow> bool" where
  "datetime_valid (DateTime y mo d h mi s us) \<longleftrightarrow>
     1 \<le> y \<and> y \<le> 9999 \<and> 1 \<le> mo \<and> mo \<le> 12 \<and> 1 \<le> d \<and> d \<le> days_in_month y mo \<and>
     h \<le> 23 \<and> mi \<le> 59 \<and> s \<le> 59 \<and> us \<le> 999999"

fun datetime_key :: "datetime \<Rightarrow> nat \<times> nat \<times> nat \<times> nat \<times> nat \<times> nat \<times> nat" where
  "datetime_key (DateTime y mo d h mi s us) = (y, mo, d, h, mi, s, us)"

definition datetime_le :: "datetime \<Rightarrow> datetime \<Rightarrow> bool" where
  "datetime_le a b \<longleftrightarrow> datetime_key a \<le> datetime_key b"

subsection \<open>Tables\<close>

text \<open>
  \<open>ub.User\<close> and \<open>ub.RemoteAuthToken\<close> are declared outside this module. A user row is
  its primary key \<open>id\<close> (here \<open>ident\<close>) and a name; a token row has the four columns that
  \<open>generate_auth_token\<close> assigns. The tables are lists of rows in storage order, without
  any constraint of their own: the constraints a claim relies on are stated as predicates
  on the session below.
\<close>

record user =
  ident :: int
  nickname :: string

record remote_auth_token =
  user_id :: int
  expiration :: datetime
  auth_token :: string
  token_type :: int

text \<open>
  The session: the two tables, the user that \<open>flask_login.login_user\<close> has logged in,
  the lines written to the module's logger, and the number of statements issued against
  the database session so far.
\<close>

record session =
  users :: "user list"
  tokens :: "remote_auth_token list"
  current_login :: "user option"
  logged :: "string list"
  queries :: nat

definition token_values_unique :: "session \<Rightarrow> bool" where
  "token_values_unique e \<longleftrightarrow> distinct (map auth_token (tokens e))"

definition user_ids_unique :: "session \<Rightarrow> bool" where
  "user_ids_unique e \<longleftrightarrow> distinct (map ident (users e))"

definition one_token_per_user_and_type :: "session \<Rightarrow> bool" where
  "one_token_per_user_and_type e \<longleftrightarrow>
     distinct (map (\<lambda>t. (user_id t, token_type t)) (tokens e))"

subsection \<open>Query interface\<close>

text \<open>
  \<open>Query.first()\<close> returns the first row of the result or \<open>None\<close>;
  \<open>Query.delete()\<close> removes from the table every row the query selects;
  \<open>query(User).join(RemoteAuthToken)\<close> is the inner join on the foreign key
  \<open>RemoteAuthToken.user_id = User.id\<close>.
\<close>

definition first_row :: "'a list \<Rightarrow> 'a option" where
  "first_row xs = (case xs of [] \<Rightarrow> None | x # _ \<Rightarrow> Some x)"

definition delete_rows :: "'a list \<Rightarrow> 'a list \<Rightarrow> 'a list" where
  "delete_rows selected table = [t \<leftarrow> table. t \<notin> set selected]"

definition join_user_token :: "session \<Rightarrow> (user \<times> remote_auth_token) list" where
  "join_user_token e = [(u, t). u \<leftarrow> users e, t \<leftarrow> tokens e, user_id t = ident u]"

definition issue_statement :: "session \<Rightarrow> session" where
  "issue_statement e = e\<lparr>queries := Suc (queries e)\<rparr>"

text \<open>
  The two query expressions of the module. The request loader selects
  \<open>query(User).join(RemoteAuthToken).filter(auth_token == tok).filter(token_type == 1)\<close>;
  both routes select
  \<open>query(RemoteAuthToken).filter(user_id == uid).filter(token_type == 1)\<close>.
\<close>

definition kobo_user_query :: "string \<Rightarrow> session \<Rightarrow> (user \<times> remote_auth_token) list" where
  "kobo_user_query tok e =
     filter (\<lambda>(u, t). token_type t = 1)
       (filter (\<lambda>(u, t). auth_token t = tok) (join_user_token e))"

definition user_token_query :: "int \<Rightarrow> session \<Rightarrow> remote_auth_token list" where
  "user_token_query uid e =
     filter (\<lambda>t. token_type t = 1) (filter (\<lambda>t. user_id t = uid) (tokens e))"

subsection \<open>Collaborators\<close>

text \<open>
  \<open>login_user\<close> records the user as logged in (the accounts of this application are
  always active, so it never declines); \<open>log.info\<close> appends a line to the log.
  \<open>url_for\<close> and \<open>render_title_template\<close> are kept as the data they are called with.
\<close>

definition login_user :: "user \<Rightarrow> session \<Rightarrow> session" where
  "login_user u e = e\<lparr>current_login := Some u\<rparr>"

definition log_info :: "string \<Rightarrow> session \<Rightarrow> session" where
  "log_info msg e = e\<lparr>logged := logged e @ [msg]\<rparr>"

record url =
  endpoint :: string
  url_auth_token :: string
  external :: bool

record page =
  template :: string
  title :: string
  kobo_auth_url :: url

definition url_for :: "string \<Rightarrow> string \<Rightarrow> bool \<Rightarrow> url" where
  "url_for ep tok ext = \<lparr>endpoint = ep, url_auth_token = tok, external = ext\<rparr>"

definition render_title_template :: "string \<Rightarrow> string \<Rightarrow> url \<Rightarrow> page" where
  "render_title_template tpl ttl u = \<lparr>template = tpl, title = ttl, kobo_auth_url = u\<rparr>"

subsection \<open>Random tokens\<close>

text \<open>
  \<open>os.urandom(n)\<close> returns \<open>n\<close> bytes of the operating system's random source, here a
  function from positions to bytes. \<open>binascii.hexlify\<close> writes every byte as two
  lowercase hexadecimal digits, high nibble first.
\<close>

type_synonym byte = "8 word"

definition urandom :: "nat \<Rightarrow> (nat \<Rightarrow> byte) \<Rightarrow> byte list" where
  "urandom n rnd = map rnd [0..<n]"

definition hex_digits :: string where
  "hex_digits = ''0123456789abcdef''"

definition hexlify_byte :: "byte \<Rightarrow> string" where
  "hexlify_byte b = [hex_digits ! (unat b div 16), hex_digits ! (unat b mod 16)]"

definition hexlify :: "byte list \<Rightarrow> string" where
  "hexlify bs = concat (map hexlify_byte bs)"

subsection \<open>The module's functions\<close>

datatype py_error = KeyError string

type_synonym request_context = "string \<rightharpoonup> string"

text \<open>\<open>dict.pop(key)\<close> without a default raises \<open>KeyError\<close> when the key is missing.\<close>

definition dict_pop :: "(string \<rightharpoonup> string) \<Rightarrow> string \<Rightarrow> py_error + (string \<times> (string \<rightharpoonup> string))" where
  "dict_pop d k = (case d k of None \<Rightarrow> Inl (KeyError k) | Some v \<Rightarrow> Inr (v, d(k := None)))"

text \<open>
  \<open>pop_auth_token(endpoint, values)\<close>: \<open>g.auth_token = values.pop("auth_token")\<close>.
  The result is the updated request context and the updated \<open>values\<close>.
\<close>

definition pop_auth_token ::
  "string \<Rightarrow> (string \<rightharpoonup> string) \<Rightarrow> request_context \<Rightarrow> py_error + (request_context \<times> (string \<rightharpoonup> string))" where
  "pop_auth_token ep values g =
     (case dict_pop values ''auth_token'' of
        Inl err \<Rightarrow> Inl err
      | Inr (v, values') \<Rightarrow> Inr (g(''auth_token'' \<mapsto> v), values'))"

definition get_auth_token :: "request_context \<Rightarrow> string option" where
  "get_auth_token g = (if ''auth_token'' \<in> dom g then g ''auth_token'' else None)"

definition no_token_message :: string where
  "no_token_message = ''Received Kobo request without a recognizable auth token.''"

text \<open>
  \<open>load_user_from_kobo_request(request)\<close>. The request argument is not read by the
  source: the token comes from the request context \<open>g\<close>.
\<close>

definition load_user_from_kobo_request :: "request_context \<Rightarrow> session \<Rightarrow> user option \<times> session" where
  "load_user_from_kobo_request g e =
     (case get_auth_token g of
        Some tok \<Rightarrow>
          (let e1 = issue_statement e in
           case first_row (kobo_user_query tok e1) of
             Some (u, t) \<Rightarrow> (Some u, login_user u e1)
           | None \<Rightarrow> (None, log_info no_token_message e1))
      | None \<Rightarrow> (None, log_info no_token_message e))"

text \<open>
  \<open>generate_auth_token(user_id)\<close>. A row object is truthy, so \<open>not auth_token\<close> holds
  exactly when the query found no row. \<open>session.add\<close> followed by \<open>session.commit\<close>
  appends the new row to the table.
\<close>

definition generate_auth_token :: "int \<Rightarrow> (nat \<Rightarrow> byte) \<Rightarrow> session \<Rightarrow> page \<times> session" where
  "generate_auth_token uid rnd e =
     (let e1 = issue_statement e;
          found = first_row (user_token_query uid e1);
          (tok, e2) =
            (case found of
               None \<Rightarrow>
                 (let new = \<lparr>user_id = uid, expiration = datetime_max,
                             auth_token = hexlify (urandom 16 rnd), token_type = 1\<rparr>
                  in (new, issue_statement (e1\<lparr>tokens := tokens e1 @ [new]\<rparr>)))
             | Some old \<Rightarrow> (old, e1))
      in (render_title_template ''generate_kobo_auth_url.html'' ''Kobo Set-up''
            (url_for ''kobo.TopLevelEndpoint'' (auth_token tok) True),
          e2))"

text \<open>\<open>delete_auth_token(user_id)\<close>: delete the selected rows, commit, answer \<open>""\<close>.\<close>

definition delete_auth_token :: "int \<Rightarrow> session \<Rightarrow> string \<times> session" where
  "delete_auth_token uid e =
     (let e1 = issue_statement e;
          selected = user_token_query uid e1
      in ('''', e1\<lparr>tokens := delete_rows selected (tokens e1)\<rparr>))"

text \<open>The row that issuance creates and the page that it answers with.\<close>

definition new_token :: "int \<Rightarrow> (nat \<Rightarrow> byte) \<Rightarrow> remote_auth_token" where
  "new_token uid rnd = \<lparr>user_id = uid, expiration = datetime_max,
                             auth_token = hexlify (urandom 16 rnd), token_type = 1\<rparr>"

definition setup_page :: "remote_auth_token \<Rightarrow> page" where
  "setup_page tok = render_title_template ''generate_kobo_auth_url.html'' ''Kobo Set-up''
            (url_for ''kobo.TopLevelEndpoint'' (auth_token tok) True)"

text \<open>The token value a setup page shows.\<close>

definition shown_token :: "page \<Rightarrow> string" where
  "shown_token p = url_auth_token (kobo_auth_url p)"

text \<open>
  Sequences of the two routes, run one after the other. Requests are handled one at a
  time here, and the storage layer does not fail.
\<close>

datatype operation = Issue int "nat \<Rightarrow> byte" | Revoke int

fun run_operation :: "operation \<Rightarrow> session \<Rightarrow> session" where
  "run_operation (Issue uid rnd) e = snd (generate_auth_token uid rnd e)"
| "run_operation (Revoke uid) e = snd (delete_auth_token uid e)"

fun run_operations :: "operation list \<Rightarrow> session \<Rightarrow> session" where
  "run_operations [] e = e"
| "run_operations (x # xs) e = run_operations xs (run_operation x e)"

subsection \<open>A concrete session\<close>

text \<open>
  Two users; user 42 holds the sync token of the specification's example, user 7 holds
  none. \<open>example_random\<close> is one possible output of the random source.
\<close>

definition alice :: user where
  "alice = \<lparr>ident = 42, nickname = ''alice''\<rparr>"

definition bob :: user where
  "bob = \<lparr>ident = 7, nickname = ''bob''\<rparr>"

definition example_token :: remote_auth_token where
  "example_token = \<lparr>user_id = 42, expiration = datetime_max,
     auth_token = ''a1b2c3d4e5f6a7b8c9d0e1f2a3b4c5d6'', token_type = 1\<rparr>"

definition example_session :: session where
  "example_session = \<lparr>users = [alice, bob], tokens = [example_token],
     current_login = None, logged = [], queries = 0\<rparr>"

definition example_random :: "nat \<Rightarrow> byte" where
  "example_random i = of_nat (17 * i + 3)"

section \<open>Properties\<close>

subsection \<open>Query helpers\<close>

lemma first_row_None: "first_row xs = None \<longleftrightarrow> xs = []"
  by (cases xs) (simp_all add: first_row_def)

lemma first_row_Some_mem: "first_row xs = Some x \<Longrightarrow> x \<in> set xs"
  by (cases xs) (simp_all add: first_row_def)

lemma delete_rows_selected: "delete_rows (filter P ts) ts = [t \<leftarrow> ts. \<not> P t]"
  by (auto simp: delete_rows_def intro: filter_cong)

subsection \<open>Token values\<close>

lemma hexlify_length: "length (hexlify bs) = 2 * length bs"
  by (induction bs) (simp_all add: hexlify_def hexlify_byte_def)

lemma hex_digit_mem: "n < 16 \<Longrightarrow> hex_digits ! n \<in> set hex_digits"
  by (rule nth_mem) (simp add: hex_digits_def)

lemma hexlify_byte_chars: "set (hexlify_byte b) \<subseteq> set hex_digits"
proof -
  have "unat b < 256" using unsigned_less [of b] by simp
  then have "unat b div 16 < 16" by simp
  moreover have "unat b mod 16 < 16" by simp
  ultimately show ?thesis by (simp add: hexlify_byte_def hex_digit_mem)
qed

lemma hexlify_chars: "set (hexlify bs) \<subseteq> set hex_digits"
  using hexlify_byte_chars by (auto simp: hexlify_def)

lemma urandom_length: "length (urandom n rnd) = n"
  by (simp add: urandom_def)

lemma example_random_hex:
  "hexlify (urandom 16 example_random) = ''031425364758697a8b9cadbecfe0f102''"
  by code_simp

subsection \<open>Timestamps\<close>

lemma datetime_max_valid: "datetime_valid datetime_max"
  by (simp add: datetime_max_def days_in_month_def)

lemma datetime_max_greatest: "datetime_valid d \<Longrightarrow> datetime_le d datetime_max"
proof (cases d)
  case (DateTime y mo dd h mi s us)
  assume "datetime_valid d"
  with DateTime have b: "y \<le> 9999" "mo \<le> 12" "dd \<le> days_in_month y mo" "h \<le> 23" "mi \<le> 59"
    "s \<le> 59" "us \<le> 999999" by simp_all
  have "days_in_month y mo \<le> 31" by (simp add: days_in_month_def)
  with b have "dd \<le> 31" by simp
  with b DateTime show ?thesis
    by (auto simp: datetime_le_def datetime_max_def less_eq_prod_def)
qed

subsection \<open>Queries\<close>

lemma join_user_token_mem:
  "(u, t) \<in> set (join_user_token e) \<longleftrightarrow>
     u \<in> set (users e) \<and> t \<in> set (tokens e) \<and> user_id t = ident u"
  by (auto simp: join_user_token_def)

lemma kobo_user_query_mem:
  "(u, t) \<in> set (kobo_user_query tok e) \<longleftrightarrow>
     u \<in> set (users e) \<and> t \<in> set (tokens e) \<and> user_id t = ident u
     \<and> auth_token t = tok \<and> token_type t = 1"
  by (auto simp: kobo_user_query_def join_user_token_mem)

lemma kobo_user_query_issue_statement:
  "kobo_user_query tok (issue_statement e) = kobo_user_query tok e"
  by (simp add: kobo_user_query_def join_user_token_def issue_statement_def)

lemma kobo_user_query_empty:
  assumes "\<forall>t \<in> set (tokens e). \<not> (auth_token t = T \<and> token_type t = 1)"
  shows "kobo_user_query T e = []"
proof (cases "kobo_user_query T e")
  case Nil
  then show ?thesis .
next
  case (Cons p ps)
  obtain u t where "p = (u, t)" by (cases p)
  with Cons have "(u, t) \<in> set (kobo_user_query T e)" by simp
  with assms show ?thesis by (auto simp: kobo_user_query_mem)
qed

lemma user_token_query_conv:
  "user_token_query uid e = [t \<leftarrow> tokens e. user_id t = uid \<and> token_type t = 1]"
  by (simp add: user_token_query_def)

lemma issue_statement_fields:
  "tokens (issue_statement e) = tokens e" "users (issue_statement e) = users e"
  "current_login (issue_statement e) = current_login e" "logged (issue_statement e) = logged e"
  "queries (issue_statement e) = Suc (queries e)"
  by (simp_all add: issue_statement_def)

lemma user_token_query_issue_statement:
  "user_token_query uid (issue_statement e) = user_token_query uid e"
  by (simp add: user_token_query_def issue_statement_def)

lemma user_token_query_empty:
  "\<forall>t \<in> set (tokens e). \<not> (user_id t = uid \<and> token_type t = 1) \<Longrightarrow> user_token_query uid e = []"
  by (simp add: user_token_query_conv filter_empty_conv)

subsection \<open>The functions, case by case\<close>

lemma load_user_unfold:
  "g ''auth_token'' = Some tok \<Longrightarrow>
   load_user_from_kobo_request g e =
     (case first_row (kobo_user_query tok e) of
        Some (u, t) \<Rightarrow> (Some u, login_user u (issue_statement e))
      | None \<Rightarrow> (None, log_info no_token_message (issue_statement e)))"
  by (simp add: load_user_from_kobo_request_def get_auth_token_def
      kobo_user_query_issue_statement Let_def dom_def)

lemma shown_token_setup_page: "shown_token (setup_page tok) = auth_token tok"
  by (simp add: shown_token_def setup_page_def render_title_template_def url_for_def)

lemma generate_existing:
  "first_row (user_token_query uid e) = Some old \<Longrightarrow>
   generate_auth_token uid rnd e = (setup_page old, issue_statement e)"
  by (simp add: generate_auth_token_def Let_def user_token_query_issue_statement setup_page_def)

lemma generate_fresh:
  "first_row (user_token_query uid e) = None \<Longrightarrow>
   generate_auth_token uid rnd e =
     (setup_page (new_token uid rnd),
      issue_statement ((issue_statement e)\<lparr>tokens := tokens e @ [new_token uid rnd]\<rparr>))"
  by (simp add: generate_auth_token_def Let_def user_token_query_issue_statement setup_page_def
      new_token_def issue_statement_fields)

lemma delete_tokens:
  "tokens (snd (delete_auth_token uid e)) = [t \<leftarrow> tokens e. \<not> (user_id t = uid \<and> token_type t = 1)]"
  by (simp add: delete_auth_token_def Let_def user_token_query_conv delete_rows_selected
      issue_statement_def)

lemma user_token_query_mem:
  "t \<in> set (user_token_query uid e) \<longleftrightarrow> t \<in> set (tokens e) \<and> user_id t = uid \<and> token_type t = 1"
  by (auto simp: user_token_query_conv)

lemma new_token_fields:
  "user_id (new_token uid rnd) = uid" "token_type (new_token uid rnd) = 1"
  "auth_token (new_token uid rnd) = hexlify (urandom 16 rnd)"
  "expiration (new_token uid rnd) = datetime_max"
  by (simp_all add: new_token_def)

subsection \<open>Issuance and revocation, step by step\<close>

lemma generate_twice:
  "shown_token (fst (generate_auth_token uid rnd2 (snd (generate_auth_token uid rnd1 e))))
     = shown_token (fst (generate_auth_token uid rnd1 e))
   \<and> tokens (snd (generate_auth_token uid rnd2 (snd (generate_auth_token uid rnd1 e))))
     = tokens (snd (generate_auth_token uid rnd1 e))"
proof (cases "first_row (user_token_query uid e)")
  case None
  let ?e1 = "issue_statement ((issue_statement e)\<lparr>tokens := tokens e @ [new_token uid rnd1]\<rparr>)"
  from None have empty: "user_token_query uid e = []" by (simp add: first_row_None)
  have "user_token_query uid ?e1 = user_token_query uid e @ [new_token uid rnd1]"
    by (simp add: user_token_query_conv issue_statement_fields new_token_fields)
  with empty have "first_row (user_token_query uid ?e1) = Some (new_token uid rnd1)"
    by (simp add: first_row_def)
  then have "generate_auth_token uid rnd2 ?e1 = (setup_page (new_token uid rnd1), issue_statement ?e1)"
    by (rule generate_existing)
  with None show ?thesis
    by (simp add: generate_fresh issue_statement_fields)
next
  case (Some old)
  have "user_token_query uid (issue_statement e) = user_token_query uid e"
    by (rule user_token_query_issue_statement)
  with Some have "generate_auth_token uid rnd2 (issue_statement e)
      = (setup_page old, issue_statement (issue_statement e))"
    by (simp add: generate_existing)
  with Some show ?thesis
    by (simp add: generate_existing issue_statement_fields)
qed

lemma generate_preserves_one_token:
  assumes "one_token_per_user_and_type e"
  shows "one_token_per_user_and_type (snd (generate_auth_token uid rnd e))"
proof (cases "first_row (user_token_query uid e)")
  case None
  then have "user_token_query uid e = []" by (simp add: first_row_None)
  then have "\<forall>t \<in> set (tokens e). \<not> (user_id t = uid \<and> token_type t = 1)"
    by (simp add: user_token_query_conv filter_empty_conv)
  then have "(uid, 1) \<notin> (\<lambda>t. (user_id t, token_type t)) ` set (tokens e)"
    by auto
  with assms None show ?thesis
    by (simp add: generate_fresh one_token_per_user_and_type_def issue_statement_fields
        new_token_fields)
next
  case (Some old)
  with assms show ?thesis
    by (simp add: generate_existing one_token_per_user_and_type_def issue_statement_fields)
qed

lemma delete_preserves_one_token:
  assumes "one_token_per_user_and_type e"
  shows "one_token_per_user_and_type (snd (delete_auth_token uid e))"
  using assms
  by (simp add: one_token_per_user_and_type_def delete_tokens distinct_map_filter)

lemma run_operation_preserves_one_token:
  "one_token_per_user_and_type e \<Longrightarrow> one_token_per_user_and_type (run_operation x e)"
  by (cases x) (simp_all add: generate_preserves_one_token delete_preserves_one_token)

text \<open>
  The tables themselves do not keep token values unique. In a store where two users
  share a value, revoking the token of one leaves the value resolvable to the other, which
  is why the statements on resolution and revocation below assume unique values.
\<close>

lemma shared_value_survives_revocation:
  "fst (load_user_from_kobo_request [''auth_token'' \<mapsto> ''a1b2c3d4e5f6a7b8c9d0e1f2a3b4c5d6'']
     (snd (delete_auth_token 42
        (example_session\<lparr>tokens := [example_token, example_token\<lparr>user_id := 7\<rparr>]\<rparr>))))
   = Some bob"
  by (simp add: load_user_unfold kobo_user_query_def join_user_token_def delete_auth_token_def
      Let_def user_token_query_def delete_rows_def issue_statement_def
      example_session_def example_token_def alice_def bob_def first_row_def)

subsection \<open>Path token extraction\<close>

text \<open>
  C2, as stated, at the empty mapping: the extraction step raises \<open>KeyError\<close> instead of
  yielding a missing token.
\<close>

theorem pop_auth_token_absent_raises:
  "pop_auth_token ''kobo.TopLevelEndpoint'' Map.empty Map.empty = Inl (KeyError ''auth_token'')"
  by (simp add: pop_auth_token_def dict_pop_def)

text \<open>
  C2, amended: when the mapping of matched URL values has the key \<open>auth_token\<close>, the
  extraction step does not fail; it stashes the value under \<open>auth_token\<close> in the request
  context and leaves every other matched value in place, the key itself removed. When
  the key is absent the step raises \<open>KeyError\<close>.
\<close>

theorem pop_auth_token_present:
  "(values ''auth_token'' = Some v \<longrightarrow>
      pop_auth_token ep values g = Inr (g(''auth_token'' \<mapsto> v), values(''auth_token'' := None))
      \<and> get_auth_token (g(''auth_token'' \<mapsto> v)) = Some v)
   \<and> (values ''auth_token'' = None \<longrightarrow>
      pop_auth_token ep values g = Inl (KeyError ''auth_token''))"
  by (simp add: pop_auth_token_def dict_pop_def get_auth_token_def)

theorem pop_auth_token_present_witness:
  "pop_auth_token ''kobo.HandleSyncRequest''
     [''auth_token'' \<mapsto> ''a1b2c3d4e5f6a7b8c9d0e1f2a3b4c5d6'', ''book_uuid'' \<mapsto> ''77''] Map.empty
   = Inr ([''auth_token'' \<mapsto> ''a1b2c3d4e5f6a7b8c9d0e1f2a3b4c5d6''], [''book_uuid'' \<mapsto> ''77''])
   \<and> pop_auth_token ''kobo.HandleSyncRequest'' [''book_uuid'' \<mapsto> ''77''] Map.empty
     = Inl (KeyError ''auth_token'')"
proof -
  let ?vs = "[''auth_token'' \<mapsto> ''a1b2c3d4e5f6a7b8c9d0e1f2a3b4c5d6'', ''book_uuid'' \<mapsto> ''77'']"
  have present: "?vs ''auth_token'' = Some ''a1b2c3d4e5f6a7b8c9d0e1f2a3b4c5d6''"
    by simp
  have absent: "[''book_uuid'' \<mapsto> ''77''] ''auth_token'' = None"
    by simp
  have rest: "?vs(''auth_token'' := None) = [''book_uuid'' \<mapsto> ''77'']"
    by (rule ext) simp
  from pop_auth_token_present [of ?vs "''a1b2c3d4e5f6a7b8c9d0e1f2a3b4c5d6''"
        "''kobo.HandleSyncRequest''" Map.empty] present rest
  have one: "pop_auth_token ''kobo.HandleSyncRequest'' ?vs Map.empty
     = Inr ([''auth_token'' \<mapsto> ''a1b2c3d4e5f6a7b8c9d0e1f2a3b4c5d6''], [''book_uuid'' \<mapsto> ''77''])"
    by simp
  from pop_auth_token_present [of "[''book_uuid'' \<mapsto> ''77'']" "''77''"
        "''kobo.HandleSyncRequest''" Map.empty] absent
  have two: "pop_auth_token ''kobo.HandleSyncRequest'' [''book_uuid'' \<mapsto> ''77''] Map.empty
     = Inl (KeyError ''auth_token'')"
    by simp
  from one two show ?thesis by simp
qed

subsection \<open>Identity resolution\<close>

text \<open>
  C1: let user \<open>U\<close> own a stored token row of type 1 with value \<open>T\<close>. Under the store
  invariants (user ids are a primary key; token values are unique), the request loader
  called with \<open>T\<close> stashed in the request context returns exactly \<open>U\<close>, after one
  statement against the store, and \<open>U\<close> is the user logged in for the request.
\<close>

theorem load_user_resolves_owner:
  assumes pk: "user_ids_unique e" and uniq: "token_values_unique e"
    and U: "U \<in> set (users e)" and t: "t \<in> set (tokens e)"
    and own: "user_id t = ident U" and ty: "token_type t = 1" and val: "auth_token t = T"
    and g: "g ''auth_token'' = Some T"
  shows "load_user_from_kobo_request g e = (Some U, login_user U (issue_statement e))
     \<and> current_login (snd (load_user_from_kobo_request g e)) = Some U"
proof -
  have "(U, t) \<in> set (kobo_user_query T e)"
    using U t own ty val by (simp add: kobo_user_query_mem)
  then have "kobo_user_query T e \<noteq> []" by auto
  then obtain u' t' where first: "first_row (kobo_user_query T e) = Some (u', t')"
    by (cases "first_row (kobo_user_query T e)") (auto simp: first_row_None)
  then have "(u', t') \<in> set (kobo_user_query T e)" by (rule first_row_Some_mem)
  then have m: "u' \<in> set (users e)" "t' \<in> set (tokens e)" "user_id t' = ident u'"
    "auth_token t' = T" by (simp_all add: kobo_user_query_mem)
  from uniq have "inj_on auth_token (set (tokens e))"
    by (simp add: token_values_unique_def distinct_map)
  with m t val have "t' = t" by (auto dest: inj_onD)
  with m own have "ident u' = ident U" by simp
  moreover from pk have "inj_on ident (set (users e))"
    by (simp add: user_ids_unique_def distinct_map)
  ultimately have "u' = U" using m U by (auto dest: inj_onD)
  with first g show ?thesis
    by (simp add: load_user_unfold login_user_def)
qed

theorem load_user_resolves_owner_witness:
  "user_ids_unique example_session \<and> token_values_unique example_session
   \<and> load_user_from_kobo_request [''auth_token'' \<mapsto> ''a1b2c3d4e5f6a7b8c9d0e1f2a3b4c5d6'']
       example_session
     = (Some alice, example_session\<lparr>current_login := Some alice, queries := 1\<rparr>)"
proof -
  have pk: "user_ids_unique example_session"
    by (simp add: user_ids_unique_def example_session_def alice_def bob_def)
  have uniq: "token_values_unique example_session"
    by (simp add: token_values_unique_def example_session_def)
  have U: "alice \<in> set (users example_session)"
    and t: "example_token \<in> set (tokens example_session)"
    by (simp_all add: example_session_def)
  have own: "user_id example_token = ident alice" and ty: "token_type example_token = 1"
    and val: "auth_token example_token = ''a1b2c3d4e5f6a7b8c9d0e1f2a3b4c5d6''"
    by (simp_all add: example_token_def alice_def)
  have g: "[''auth_token'' \<mapsto> ''a1b2c3d4e5f6a7b8c9d0e1f2a3b4c5d6''] ''auth_token''
      = Some ''a1b2c3d4e5f6a7b8c9d0e1f2a3b4c5d6''"
    by simp
  from load_user_resolves_owner
    [where g = "[''auth_token'' \<mapsto> ''a1b2c3d4e5f6a7b8c9d0e1f2a3b4c5d6'']",
      OF pk uniq U t own ty val g] pk uniq
  show ?thesis
    by (simp add: login_user_def issue_statement_def example_session_def)
qed

text \<open>
  C8: when the stashed token value matches no stored row of type 1, the request loader
  writes its diagnostic line to the log and returns no identity. It has no failing
  branch; the tables are unchanged and nobody is logged in by the call.
\<close>

theorem load_user_unknown_token:
  assumes g: "g ''auth_token'' = Some T"
    and none: "\<forall>t \<in> set (tokens e). \<not> (auth_token t = T \<and> token_type t = 1)"
  shows "load_user_from_kobo_request g e = (None, log_info no_token_message (issue_statement e))
     \<and> logged (snd (load_user_from_kobo_request g e)) = logged e @ [no_token_message]
     \<and> tokens (snd (load_user_from_kobo_request g e)) = tokens e
     \<and> users (snd (load_user_from_kobo_request g e)) = users e
     \<and> current_login (snd (load_user_from_kobo_request g e)) = current_login e"
proof -
  from none have "first_row (kobo_user_query T e) = None"
    by (simp add: first_row_None kobo_user_query_empty)
  with g show ?thesis
    by (simp add: load_user_unfold log_info_def issue_statement_def)
qed

theorem load_user_unknown_token_witness:
  "[t \<leftarrow> tokens example_session.
      auth_token t = ''00000000000000000000000000000000'' \<and> token_type t = 1] = []
   \<and> load_user_from_kobo_request [''auth_token'' \<mapsto> ''00000000000000000000000000000000'']
       example_session
     = (None, example_session\<lparr>logged := [no_token_message], queries := 1\<rparr>)"
proof -
  have g: "[''auth_token'' \<mapsto> ''00000000000000000000000000000000''] ''auth_token''
      = Some ''00000000000000000000000000000000''"
    by simp
  have none: "\<forall>t \<in> set (tokens example_session).
      \<not> (auth_token t = ''00000000000000000000000000000000'' \<and> token_type t = 1)"
    by (simp add: example_session_def example_token_def)
  have empty: "[t \<leftarrow> tokens example_session.
      auth_token t = ''00000000000000000000000000000000'' \<and> token_type t = 1] = []"
    by (simp add: example_session_def example_token_def)
  from load_user_unknown_token
    [where g = "[''auth_token'' \<mapsto> ''00000000000000000000000000000000'']", OF g none]
  have "load_user_from_kobo_request [''auth_token'' \<mapsto> ''00000000000000000000000000000000'']
       example_session
     = (None, example_session\<lparr>logged := [no_token_message], queries := 1\<rparr>)"
    by (simp add: log_info_def issue_statement_def example_session_def)
  with empty show ?thesis by simp
qed

text \<open>
  C9: when no token is stashed in the request context, the request loader returns no
  identity, issues no statement against the store (the statement count is unchanged),
  and its answer does not depend on the store at all.
\<close>

theorem load_user_no_token:
  assumes "g ''auth_token'' = None"
  shows "load_user_from_kobo_request g e = (None, log_info no_token_message e)
     \<and> queries (snd (load_user_from_kobo_request g e)) = queries e
     \<and> fst (load_user_from_kobo_request g e') = None"
  using assms
  by (simp add: load_user_from_kobo_request_def get_auth_token_def dom_def log_info_def)

theorem load_user_no_token_witness:
  "load_user_from_kobo_request Map.empty example_session
     = (None, example_session\<lparr>logged := [no_token_message]\<rparr>)
   \<and> queries (snd (load_user_from_kobo_request Map.empty example_session)) = 0"
proof -
  have "(Map.empty :: request_context) ''auth_token'' = None" by simp
  from load_user_no_token [where g = Map.empty, OF this, of example_session example_session] show ?thesis
    by (simp add: log_info_def example_session_def)
qed

subsection \<open>Revocation\<close>

text \<open>
  C6: let user \<open>uid\<close> hold a token row of type 1 with value \<open>T\<close>, in a store whose token
  values are unique. After \<open>delete_auth_token uid\<close> a request presenting \<open>T\<close> resolves
  to no identity.
\<close>

theorem revoke_invalidates:
  assumes uniq: "token_values_unique e"
    and t: "t \<in> set (tokens e)" and own: "user_id t = uid" and ty: "token_type t = 1"
    and val: "auth_token t = T" and g: "g ''auth_token'' = Some T"
  shows "fst (load_user_from_kobo_request g (snd (delete_auth_token uid e))) = None"
proof -
  let ?e' = "snd (delete_auth_token uid e)"
  from uniq have inj: "inj_on auth_token (set (tokens e))"
    by (simp add: token_values_unique_def distinct_map)
  have "\<forall>r \<in> set (tokens ?e'). \<not> (auth_token r = T \<and> token_type r = 1)"
  proof (intro ballI notI)
    fix r assume r: "r \<in> set (tokens ?e')" and "auth_token r = T \<and> token_type r = 1"
    then have "r \<in> set (tokens e)" "auth_token r = auth_token t"
      using val by (simp_all add: delete_tokens)
    with inj t have "r = t" by (auto dest: inj_onD)
    with r own ty show False by (simp add: delete_tokens)
  qed
  then have "first_row (kobo_user_query T ?e') = None"
    by (simp only: first_row_None kobo_user_query_empty)
  with g show ?thesis by (simp add: load_user_unfold)
qed

theorem revoke_invalidates_witness:
  "token_values_unique example_session
   \<and> fst (load_user_from_kobo_request [''auth_token'' \<mapsto> ''a1b2c3d4e5f6a7b8c9d0e1f2a3b4c5d6'']
       example_session) = Some alice
   \<and> fst (load_user_from_kobo_request [''auth_token'' \<mapsto> ''a1b2c3d4e5f6a7b8c9d0e1f2a3b4c5d6'']
       (snd (delete_auth_token 42 example_session))) = None"
proof -
  have uniq: "token_values_unique example_session"
    by (simp add: token_values_unique_def example_session_def)
  have t: "example_token \<in> set (tokens example_session)"
    by (simp add: example_session_def)
  have own: "user_id example_token = 42" and ty: "token_type example_token = 1"
    and val: "auth_token example_token = ''a1b2c3d4e5f6a7b8c9d0e1f2a3b4c5d6''"
    by (simp_all add: example_token_def)
  have g: "[''auth_token'' \<mapsto> ''a1b2c3d4e5f6a7b8c9d0e1f2a3b4c5d6''] ''auth_token''
      = Some ''a1b2c3d4e5f6a7b8c9d0e1f2a3b4c5d6''"
    by simp
  have before: "fst (load_user_from_kobo_request
      [''auth_token'' \<mapsto> ''a1b2c3d4e5f6a7b8c9d0e1f2a3b4c5d6''] example_session) = Some alice"
    by (simp add: load_user_unfold kobo_user_query_def join_user_token_def example_session_def
        example_token_def alice_def bob_def first_row_def)
  from revoke_invalidates
    [where g = "[''auth_token'' \<mapsto> ''a1b2c3d4e5f6a7b8c9d0e1f2a3b4c5d6'']",
      OF uniq t own ty val g] uniq before
  show ?thesis
    by simp
qed

text \<open>
  C7: when the user has no token row of type 1, \<open>delete_auth_token\<close> answers the empty
  response and leaves the store as it was (one statement has been issued).
\<close>

theorem delete_auth_token_no_token:
  assumes "\<forall>t \<in> set (tokens e). \<not> (user_id t = uid \<and> token_type t = 1)"
  shows "delete_auth_token uid e = ('''', issue_statement e)
     \<and> tokens (snd (delete_auth_token uid e)) = tokens e
     \<and> users (snd (delete_auth_token uid e)) = users e"
proof -
  have "[t \<leftarrow> tokens e. \<not> (user_id t = uid \<and> token_type t = 1)] = tokens e"
    using assms by (simp add: filter_id_conv)
  then show ?thesis
    by (simp add: delete_auth_token_def Let_def delete_rows_selected issue_statement_def
        user_token_query_conv)
qed

theorem delete_auth_token_no_token_witness:
  "user_token_query 7 example_session = []
   \<and> delete_auth_token 7 example_session = ('''', example_session\<lparr>queries := 1\<rparr>)"
proof -
  have none: "\<forall>t \<in> set (tokens example_session). \<not> (user_id t = 7 \<and> token_type t = 1)"
    by (simp add: example_session_def example_token_def)
  have empty: "user_token_query 7 example_session = []"
    by (simp add: user_token_query_conv example_session_def example_token_def)
  from delete_auth_token_no_token [OF none]
  have "delete_auth_token 7 example_session = ('''', example_session\<lparr>queries := 1\<rparr>)"
    by (simp add: issue_statement_def example_session_def)
  with empty show ?thesis by simp
qed

text \<open>
  C10: \<open>delete_auth_token uid\<close> keeps, in order, exactly the rows that belong to another
  user or have another type; the users table and the login state are untouched.
\<close>

theorem delete_auth_token_frame:
  "tokens (snd (delete_auth_token uid e))
     = [t \<leftarrow> tokens e. user_id t \<noteq> uid \<or> token_type t \<noteq> 1]
   \<and> users (snd (delete_auth_token uid e)) = users e
   \<and> current_login (snd (delete_auth_token uid e)) = current_login e"
  by (simp add: delete_auth_token_def Let_def delete_rows_selected issue_statement_def
      user_token_query_conv)

theorem delete_auth_token_frame_witness:
  "tokens (snd (delete_auth_token 42
     (example_session\<lparr>tokens := [example_token, example_token\<lparr>token_type := 0\<rparr>,
        example_token\<lparr>user_id := 7\<rparr>]\<rparr>)))
   = [example_token\<lparr>token_type := 0\<rparr>, example_token\<lparr>user_id := 7\<rparr>]"
  using delete_auth_token_frame [of 42
     "example_session\<lparr>tokens := [example_token, example_token\<lparr>token_type := 0\<rparr>,
        example_token\<lparr>user_id := 7\<rparr>]\<rparr>"]
  by (simp add: example_token_def)

subsection \<open>Issuance\<close>

text \<open>
  C3: when the user already has a token row of type 1, \<open>generate_auth_token\<close> shows the
  value of such a stored row (of the user's row itself when rows are one per user and
  type) and leaves the token table as it was: nothing is generated, rotated or replaced.
  A second call right after it, whatever the random source gives, shows the same value
  and again changes no row.
\<close>

theorem generate_auth_token_idempotent:
  assumes t: "t \<in> set (tokens e)" and own: "user_id t = uid" and ty: "token_type t = 1"
  shows "shown_token (fst (generate_auth_token uid rnd e))
           \<in> auth_token ` {r \<in> set (tokens e). user_id r = uid \<and> token_type r = 1}
     \<and> (one_token_per_user_and_type e \<longrightarrow>
           shown_token (fst (generate_auth_token uid rnd e)) = auth_token t)
     \<and> tokens (snd (generate_auth_token uid rnd e)) = tokens e
     \<and> shown_token (fst (generate_auth_token uid rnd2 (snd (generate_auth_token uid rnd e))))
           = shown_token (fst (generate_auth_token uid rnd e))
     \<and> tokens (snd (generate_auth_token uid rnd2 (snd (generate_auth_token uid rnd e))))
           = tokens e"
proof -
  from t own ty have "t \<in> set (user_token_query uid e)" by (simp add: user_token_query_mem)
  then have "user_token_query uid e \<noteq> []" by auto
  then obtain old where first: "first_row (user_token_query uid e) = Some old"
    by (cases "first_row (user_token_query uid e)") (auto simp: first_row_None)
  then have "old \<in> set (user_token_query uid e)" by (rule first_row_Some_mem)
  then have old: "old \<in> set (tokens e)" "user_id old = uid" "token_type old = 1"
    by (simp_all add: user_token_query_mem)
  from first have gen: "generate_auth_token uid rnd e = (setup_page old, issue_statement e)"
    by (rule generate_existing)
  have same: "one_token_per_user_and_type e \<Longrightarrow> old = t"
  proof -
    assume "one_token_per_user_and_type e"
    then have "inj_on (\<lambda>r. (user_id r, token_type r)) (set (tokens e))"
      by (simp add: one_token_per_user_and_type_def distinct_map)
    with old t own ty show "old = t" by (auto dest: inj_onD)
  qed
  from gen old have 1: "shown_token (fst (generate_auth_token uid rnd e))
           \<in> auth_token ` {r \<in> set (tokens e). user_id r = uid \<and> token_type r = 1}"
    by (auto simp: shown_token_setup_page)
  from gen same have 2: "one_token_per_user_and_type e \<longrightarrow>
           shown_token (fst (generate_auth_token uid rnd e)) = auth_token t"
    by (auto simp: shown_token_setup_page)
  from gen have 3: "tokens (snd (generate_auth_token uid rnd e)) = tokens e"
    by (simp add: issue_statement_fields)
  from generate_twice [of uid rnd2 rnd e] 3 have 4:
    "shown_token (fst (generate_auth_token uid rnd2 (snd (generate_auth_token uid rnd e))))
           = shown_token (fst (generate_auth_token uid rnd e))"
    "tokens (snd (generate_auth_token uid rnd2 (snd (generate_auth_token uid rnd e)))) = tokens e"
    by simp_all
  from 1 2 3 4 show ?thesis by simp
qed

theorem generate_auth_token_idempotent_witness:
  "one_token_per_user_and_type example_session
   \<and> shown_token (fst (generate_auth_token 42 example_random example_session))
       = ''a1b2c3d4e5f6a7b8c9d0e1f2a3b4c5d6''
   \<and> tokens (snd (generate_auth_token 42 example_random example_session)) = [example_token]
   \<and> shown_token (fst (generate_auth_token 42 (\<lambda>i. 0)
        (snd (generate_auth_token 42 example_random example_session))))
       = ''a1b2c3d4e5f6a7b8c9d0e1f2a3b4c5d6''"
proof -
  have t: "example_token \<in> set (tokens example_session)"
    by (simp add: example_session_def)
  have own: "user_id example_token = 42" and ty: "token_type example_token = 1"
    by (simp_all add: example_token_def)
  have inv: "one_token_per_user_and_type example_session"
    by (simp add: one_token_per_user_and_type_def example_session_def)
  from generate_auth_token_idempotent [OF t own ty, of example_random "\<lambda>i. 0"] inv
  show ?thesis
    by (simp add: example_session_def example_token_def)
qed

text \<open>
  C4: when the user has no token row of type 1, \<open>generate_auth_token\<close> appends exactly
  one row to the token table: its owner is the user, its type is 1, its value is the
  hexadecimal rendering of the 16 bytes drawn from the random source (32 characters, every
  one of them a digit or a letter \<open>a\<close> to \<open>f\<close>), and its expiration is
  \<open>datetime.max\<close>, a valid timestamp that no valid timestamp exceeds. The page shows
  that value.
\<close>

theorem generate_auth_token_fresh:
  assumes "\<forall>t \<in> set (tokens e). \<not> (user_id t = uid \<and> token_type t = 1)"
  shows "tokens (snd (generate_auth_token uid rnd e))
           = tokens e @ [\<lparr>user_id = uid, expiration = datetime_max,
                           auth_token = hexlify (urandom 16 rnd), token_type = 1\<rparr>]
     \<and> users (snd (generate_auth_token uid rnd e)) = users e
     \<and> shown_token (fst (generate_auth_token uid rnd e)) = hexlify (urandom 16 rnd)
     \<and> length (urandom 16 rnd) = 16
     \<and> length (hexlify (urandom 16 rnd)) = 32
     \<and> (\<forall>c \<in> set (hexlify (urandom 16 rnd)). c \<in> set ''0123456789abcdef'')
     \<and> datetime_valid datetime_max
     \<and> (\<forall>d. datetime_valid d \<longrightarrow> datetime_le d datetime_max)"
proof -
  from assms have "first_row (user_token_query uid e) = None"
    by (simp add: first_row_None user_token_query_empty)
  then have gen: "generate_auth_token uid rnd e =
     (setup_page (new_token uid rnd),
      issue_statement ((issue_statement e)\<lparr>tokens := tokens e @ [new_token uid rnd]\<rparr>))"
    by (rule generate_fresh)
  then have 1: "tokens (snd (generate_auth_token uid rnd e))
           = tokens e @ [\<lparr>user_id = uid, expiration = datetime_max,
                           auth_token = hexlify (urandom 16 rnd), token_type = 1\<rparr>]"
    by (simp add: issue_statement_fields new_token_def)
  from gen have 2: "users (snd (generate_auth_token uid rnd e)) = users e"
    by (simp add: issue_statement_fields)
  from gen have 3: "shown_token (fst (generate_auth_token uid rnd e)) = hexlify (urandom 16 rnd)"
    by (simp add: shown_token_setup_page new_token_fields)
  have 4: "length (hexlify (urandom 16 rnd)) = 32"
    by (simp add: hexlify_length urandom_length)
  have 5: "\<forall>c \<in> set (hexlify (urandom 16 rnd)). c \<in> set ''0123456789abcdef''"
    unfolding hex_digits_def [symmetric]
    by (rule ballI) (rule subsetD [OF hexlify_chars])
  have 6: "length (urandom 16 rnd) = 16"
    by (rule urandom_length)
  have 7: "\<forall>d. datetime_valid d \<longrightarrow> datetime_le d datetime_max"
    by (simp add: datetime_max_greatest)
  show ?thesis
    by (intro conjI; fact 1 2 3 4 5 6 7 datetime_max_valid)
qed

theorem generate_auth_token_fresh_witness:
  "user_token_query 7 example_session = []
   \<and> tokens (snd (generate_auth_token 7 example_random example_session))
     = [example_token,
        \<lparr>user_id = 7, expiration = DateTime 9999 12 31 23 59 59 999999,
           auth_token = ''031425364758697a8b9cadbecfe0f102'', token_type = 1\<rparr>]
   \<and> datetime_le (DateTime 2026 11 3 22 50 0 0) datetime_max"
proof -
  have none: "\<forall>t \<in> set (tokens example_session). \<not> (user_id t = 7 \<and> token_type t = 1)"
    by (simp add: example_session_def example_token_def)
  have empty: "user_token_query 7 example_session = []"
    by (simp add: user_token_query_conv example_session_def example_token_def)
  have valid: "datetime_valid (DateTime 2026 11 3 22 50 0 0)"
    by (simp add: days_in_month_def)
  note inst = generate_auth_token_fresh [OF none, of example_random]
  from inst have "tokens (snd (generate_auth_token 7 example_random example_session))
     = [example_token,
        \<lparr>user_id = 7, expiration = DateTime 9999 12 31 23 59 59 999999,
           auth_token = ''031425364758697a8b9cadbecfe0f102'', token_type = 1\<rparr>]"
    by (simp add: example_random_hex example_session_def datetime_max_def)
  moreover from inst valid have "datetime_le (DateTime 2026 11 3 22 50 0 0) datetime_max"
    by blast
  ultimately show ?thesis using empty by simp
qed

text \<open>
  C5: if every pair of user and token type has at most one row, then the same holds after
  any sequence of issuances and revocations; and issuing for a user who has a row of type
  1 leaves the token table as it is.
\<close>

theorem one_token_invariant:
  assumes "one_token_per_user_and_type e"
  shows "one_token_per_user_and_type (run_operations ops e)
     \<and> ((\<exists>t \<in> set (tokens (run_operations ops e)). user_id t = uid \<and> token_type t = 1) \<longrightarrow>
          tokens (run_operation (Issue uid rnd) (run_operations ops e))
            = tokens (run_operations ops e))"
proof -
  from assms have inv: "one_token_per_user_and_type (run_operations ops e)"
  proof (induction ops arbitrary: e)
    case Nil
    then show ?case by simp
  next
    case (Cons x xs)
    from Cons.prems have "one_token_per_user_and_type (run_operation x e)"
      by (rule run_operation_preserves_one_token)
    then show ?case by (simp add: Cons.IH)
  qed
  have "tokens (run_operation (Issue uid rnd) e') = tokens e'"
    if "\<exists>t \<in> set (tokens e'). user_id t = uid \<and> token_type t = 1" for e'
  proof -
    from that have "user_token_query uid e' \<noteq> []"
      by (auto simp: user_token_query_conv filter_empty_conv)
    then obtain old where "first_row (user_token_query uid e') = Some old"
      by (cases "first_row (user_token_query uid e')") (auto simp: first_row_None)
    then show ?thesis by (simp add: generate_existing issue_statement_fields)
  qed
  with inv show ?thesis by blast
qed

theorem one_token_invariant_witness:
  "one_token_per_user_and_type example_session
   \<and> one_token_per_user_and_type
       (run_operations [Issue 7 example_random, Issue 42 (\<lambda>i. 0), Revoke 42, Issue 7 (\<lambda>i. 1)]
          example_session)
   \<and> tokens (run_operations [Issue 7 example_random, Issue 42 (\<lambda>i. 0), Revoke 42, Issue 7 (\<lambda>i. 1)]
          example_session)
     = [\<lparr>user_id = 7, expiration = datetime_max,
          auth_token = ''031425364758697a8b9cadbecfe0f102'', token_type = 1\<rparr>]"
proof -
  have inv: "one_token_per_user_and_type example_session"
    by (simp add: one_token_per_user_and_type_def example_session_def)
  have run: "tokens (run_operations
       [Issue 7 example_random, Issue 42 (\<lambda>i. 0), Revoke 42, Issue 7 (\<lambda>i. 1)] example_session)
     = [\<lparr>user_id = 7, expiration = datetime_max,
          auth_token = ''031425364758697a8b9cadbecfe0f102'', token_type = 1\<rparr>]"
    by (simp add: generate_auth_token_def delete_auth_token_def Let_def user_token_query_def
        delete_rows_def first_row_def issue_statement_def example_session_def example_token_def
        example_random_hex)
  from one_token_invariant [OF inv,
      of "[Issue 7 example_random, Issue 42 (\<lambda>i. 0), Revoke 42, Issue 7 (\<lambda>i. 1)]"] inv run
  show ?thesis by simp
qed

end
